theory Spec2Isabelle
  imports Main
begin

section \<open>JavaScript values that cross the adapter\<close>

text \<open>
  The adapter (\<^verbatim>\<open>src/index.ts\<close>) moves JSON between a tool caller and a remote HTTP API.
  A JSON value is modelled as the runtime holds it after parsing. A number is kept as its
  canonical decimal text (the text \<^verbatim>\<open>Number.prototype.toString\<close> gives for a finite
  number), so that no floating point arithmetic is needed: the adapter never computes with
  a number, it only prints it. An object is the list of its own properties in enumeration
  order. A value that may be \<^verbatim>\<open>undefined\<close> is a \<open>json option\<close>, \<open>None\<close> being
  \<^verbatim>\<open>undefined\<close>. Strings are byte strings.
\<close>

datatype json =
    JNull
  | JBool bool
  | JNum string
  | JStr string
  | JArr "json list"
  | JObj "(string \<times> json) list"

subsection \<open>String conversion in a template literal\<close>

text \<open>
  The TypeErrors of the runtime that the adapter can meet: destructuring
  \<^verbatim>\<open>undefined\<close>, reading a property of \<^verbatim>\<open>undefined\<close> or \<^verbatim>\<open>null\<close>, and
  converting to a string an object that has no callable \<^verbatim>\<open>toString\<close>.
\<close>

datatype type_error =
    Cannot_destructure string
  | Cannot_read_property string
  | Cannot_convert_to_primitive

fun join :: "string \<Rightarrow> string list \<Rightarrow> string" where
  "join sep [] = []"
| "join sep [x] = x"
| "join sep (x # y # ys) = x @ sep @ join sep (y # ys)"

text \<open>The conversions of a list of values, left to right, up to the first that fails.\<close>

fun sequence :: "(type_error + string) list \<Rightarrow> type_error + string list" where
  "sequence [] = Inr []"
| "sequence (Inl e # rs) = Inl e"
| "sequence (Inr s # rs) = (case sequence rs of Inl e \<Rightarrow> Inl e | Inr ss \<Rightarrow> Inr (s # ss))"

text \<open>
  \<^verbatim>\<open>`${v}`\<close> applies ToString. An array prints its elements separated by commas, a
  \<^verbatim>\<open>null\<close> element as the empty string. An object is converted through its
  \<^verbatim>\<open>toString\<close>: a parsed object without a key of that name inherits the method that
  prints \<^verbatim>\<open>[object Object]\<close>; one with an own key \<^verbatim>\<open>toString\<close> holds a JSON value
  there, which is not callable, and \<^verbatim>\<open>valueOf\<close> gives no primitive either, so the
  conversion raises a TypeError. An array has the elements as its only own keys, so the
  error can only come from an element.
\<close>

fun ToString :: "json \<Rightarrow> type_error + string" where
  "ToString JNull = Inr ''null''"
| "ToString (JBool b) = Inr (if b then ''true'' else ''false'')"
| "ToString (JNum n) = Inr n"
| "ToString (JStr s) = Inr s"
| "ToString (JArr xs) =
     (case sequence (map (\<lambda>x. if x = JNull then Inr [] else ToString x) xs) of
        Inl e \<Rightarrow> Inl e
      | Inr ss \<Rightarrow> Inr (join '','' ss))"
| "ToString (JObj kvs) =
     (if ''toString'' \<in> set (map fst kvs) then Inl Cannot_convert_to_primitive
      else Inr ''[object Object]'')"

definition template :: "json option \<Rightarrow> type_error + string" where
  "template v = (case v of None \<Rightarrow> Inr ''undefined'' | Some x \<Rightarrow> ToString x)"

subsection \<open>\<^verbatim>\<open>JSON.stringify(value, null, 2)\<close>\<close>

definition hex_digit :: "nat \<Rightarrow> char" where
  "hex_digit n = ''0123456789abcdef'' ! (n mod 16)"

definition UnicodeEscape :: "char \<Rightarrow> string" where
  "UnicodeEscape c =
     [CHR 0x5C, CHR ''u'', CHR ''0'', CHR ''0'',
      hex_digit (of_char c div 16), hex_digit (of_char c mod 16)]"

definition quote_char :: "char \<Rightarrow> string" where
  "quote_char c =
     (if c = CHR 0x08 then [CHR 0x5C, CHR ''b'']
      else if c = CHR 0x09 then [CHR 0x5C, CHR ''t'']
      else if c = CHR 0x0A then [CHR 0x5C, CHR ''n'']
      else if c = CHR 0x0C then [CHR 0x5C, CHR ''f'']
      else if c = CHR 0x0D then [CHR 0x5C, CHR ''r'']
      else if c = CHR 0x22 then [CHR 0x5C, CHR 0x22]
      else if c = CHR 0x5C then [CHR 0x5C, CHR 0x5C]
      else if (of_char c :: nat) < 32 then UnicodeEscape c
      else [c])"

definition QuoteJSONString :: "string \<Rightarrow> string" where
  "QuoteJSONString s = [CHR 0x22] @ concat (map quote_char s) @ [CHR 0x22]"

definition gap :: string where
  "gap = ''  ''"

text \<open>
  SerializeJSONProperty with the gap of two spaces: the first argument is the current
  indentation. An empty array or object prints without a line break.
\<close>

fun SerializeJSONProperty :: "string \<Rightarrow> json \<Rightarrow> string" where
  "SerializeJSONProperty indent JNull = ''null''"
| "SerializeJSONProperty indent (JBool b) = (if b then ''true'' else ''false'')"
| "SerializeJSONProperty indent (JNum n) = n"
| "SerializeJSONProperty indent (JStr s) = QuoteJSONString s"
| "SerializeJSONProperty indent (JArr xs) =
     (if xs = [] then ''[]''
      else ''['' @ [CHR 0x0A] @ (indent @ gap)
        @ join ('','' @ [CHR 0x0A] @ (indent @ gap))
            (map (\<lambda>x. SerializeJSONProperty (indent @ gap) x) xs)
        @ [CHR 0x0A] @ indent @ '']'')"
| "SerializeJSONProperty indent (JObj kvs) =
     (if kvs = [] then ''{}''
      else ''{'' @ [CHR 0x0A] @ (indent @ gap)
        @ join ('','' @ [CHR 0x0A] @ (indent @ gap))
            (map (\<lambda>kv. QuoteJSONString (fst kv) @ '': ''
                        @ SerializeJSONProperty (indent @ gap) (snd kv)) kvs)
        @ [CHR 0x0A] @ indent @ ''}'')"

definition JSON_stringify :: "json \<Rightarrow> string" where
  "JSON_stringify v = SerializeJSONProperty [] v"

subsection \<open>Property reads and \<^verbatim>\<open>??\<close>\<close>

text \<open>
  \<^verbatim>\<open>v.k\<close> for a property name \<open>k\<close> that no prototype defines (\<^verbatim>\<open>meta\<close> and
  \<^verbatim>\<open>error_detail\<close> are such names): reading from \<^verbatim>\<open>undefined\<close> or \<^verbatim>\<open>null\<close>
  raises a TypeError, an object gives its own property or \<^verbatim>\<open>undefined\<close>, and every
  other value (a string, number, boolean or array) gives \<^verbatim>\<open>undefined\<close>.
\<close>

definition js_get :: "json option \<Rightarrow> string \<Rightarrow> type_error + json option" where
  "js_get v k =
     (case v of
        None \<Rightarrow> Inl (Cannot_read_property k)
      | Some JNull \<Rightarrow> Inl (Cannot_read_property k)
      | Some (JObj kvs) \<Rightarrow> Inr (map_of kvs k)
      | Some _ \<Rightarrow> Inr None)"

text \<open>
  \<^verbatim>\<open>`...${v ?? message}`\<close>: the right operand, a string, is taken when \<open>v\<close> is
  \<^verbatim>\<open>undefined\<close> or \<^verbatim>\<open>null\<close>; otherwise \<open>v\<close> is converted, which can fail.
\<close>

definition nullish_or :: "json option \<Rightarrow> string \<Rightarrow> type_error + string" where
  "nullish_or v message =
     (case v of
        None \<Rightarrow> Inr message
      | Some JNull \<Rightarrow> Inr message
      | Some x \<Rightarrow> ToString x)"

section \<open>The HTTP client and the errors of the adapter\<close>

record http_response =
  status :: nat
  data :: json

datatype ErrorCode =
    ParseError
  | InvalidRequest
  | MethodNotFound
  | InvalidParams
  | InternalError

text \<open>
  What can be thrown: an error of the HTTP library (with its message, and the response
  when the remote answered), a protocol error (with the code and the message given to
  its constructor), a TypeError of the runtime, or anything else.
\<close>

datatype js_error =
    AxiosError (message: string) (response: "http_response option")
  | McpError ErrorCode string
  | TypeError type_error
  | Error string

definition isAxiosError :: "js_error \<Rightarrow> bool" where
  "isAxiosError e = (case e of AxiosError m r \<Rightarrow> True | _ \<Rightarrow> False)"

text \<open>The configuration given to \<^verbatim>\<open>axios.create\<close>.\<close>

record axios_config =
  baseURL :: string
  params :: "(string \<times> json option) list"

text \<open>
  One call \<^verbatim>\<open>axiosInstance.get(url, { params })\<close>; a call with no config object has no
  parameters of its own.
\<close>

record get_call =
  url :: string
  call_params :: "(string \<times> json option) list"

datatype get_result = Resolved http_response | Rejected js_error

text \<open>
  The library and the remote API are outside the repository: \<^verbatim>\<open>get\<close> is a parameter
  of the model, a function of the instance's configuration and of the call.
\<close>

type_synonym http_get = "axios_config \<Rightarrow> get_call \<Rightarrow> get_result"

section \<open>The server\<close>

record server_info =
  server_name :: string
  server_version :: string
  capabilities :: "string list"

record UntappdServer =
  server :: server_info
  axiosInstance :: axios_config

definition constructor :: "string \<Rightarrow> string \<Rightarrow> UntappdServer" where
  "constructor CLIENT_ID CLIENT_SECRET =
     \<lparr>server =
        \<lparr>server_name = ''untappd-server'', server_version = ''0.1.0'',
         capabilities = [''resources'', ''tools'']\<rparr>,
      axiosInstance =
        \<lparr>baseURL = ''https://api.untappd.com/v4'',
         params = [(''client_id'', Some (JStr CLIENT_ID)),
                   (''client_secret'', Some (JStr CLIENT_SECRET))]\<rparr>\<rparr>"

subsection \<open>The tool catalog\<close>

text \<open>
  A descriptor as the source writes it: \<^verbatim>\<open>name\<close>, \<^verbatim>\<open>description\<close> and
  \<^verbatim>\<open>inputSchema\<close>, the schema with its \<^verbatim>\<open>type\<close>, \<^verbatim>\<open>properties\<close> and
  \<^verbatim>\<open>required\<close>, a property with its \<^verbatim>\<open>type\<close>, \<^verbatim>\<open>description\<close> and, for one of
  them, \<^verbatim>\<open>default\<close>. Field names that Isabelle reserves or that occur in two records
  carry a prefix.
\<close>

record property_schema =
  ptype :: string
  pdescription :: string
  default_value :: "json option"

record input_schema =
  schema_type :: string
  properties :: "(string \<times> property_schema) list"
  required :: "string list"

record tool =
  tool_name :: string
  description :: string
  inputSchema :: input_schema

text \<open>
  The handler of the list-tools request takes no argument, so the request is ignored. It
  returns an object with the one field \<^verbatim>\<open>tools\<close>, whose value is this list.
\<close>

definition list_tools :: "'req \<Rightarrow> tool list" where
  "list_tools request =
     [\<lparr>tool_name = ''get_beer_info'',
       description = ''Get information about a specific beer by its ID'',
       inputSchema =
         \<lparr>schema_type = ''object'',
          properties =
            [(''beer_id'',
              \<lparr>ptype = ''string'', pdescription = ''The ID of the beer'',
               default_value = None\<rparr>)],
          required = [''beer_id'']\<rparr>\<rparr>,
      \<lparr>tool_name = ''search_beer'',
       description = ''Search for beers by name'',
       inputSchema =
         \<lparr>schema_type = ''object'',
          properties =
            [(''query'',
              \<lparr>ptype = ''string'', pdescription = ''The name of the beer to search for'',
               default_value = None\<rparr>)],
          required = [''query'']\<rparr>\<rparr>,
      \<lparr>tool_name = ''get_user_checkins'',
       description = ''Get the authenticated user'' @ [CHR 0x27] @ ''s check-ins'',
       inputSchema =
         \<lparr>schema_type = ''object'',
          properties =
            [(''limit'',
              \<lparr>ptype = ''number'', pdescription = ''The number of check-ins to retrieve'',
               default_value = Some (JNum ''25'')\<rparr>)],
          required = [''user_id'']\<rparr>\<rparr>]"

subsection \<open>The tool dispatcher\<close>

text \<open>A content block \<^verbatim>\<open>{ type, text }\<close>.\<close>

record content_block =
  block_type :: string
  block_text :: string

text \<open>
  The object a handler returns. Its \<^verbatim>\<open>isError\<close> field is optional: \<open>None\<close> is an
  object built without it.
\<close>

record envelope =
  content :: "content_block list"
  isError :: "bool option"

text \<open>
  \<^verbatim>\<open>request.params\<close>: the name of the tool and the arguments, a mapping from names to
  JSON values, or \<open>None\<close> when the request has none.
\<close>

record invocation =
  name :: string
  arguments :: "(string \<rightharpoonup> json) option"

datatype outcome = Returned envelope | Threw js_error

text \<open>
  What handling one request did: the calls made through the HTTP client (each with the
  configuration of the instance it went through), how the handler ended, and the server
  object afterwards.
\<close>

record handled =
  calls :: "(axios_config \<times> get_call) list"
  result :: outcome
  server_after :: UntappdServer

text \<open>
  \<^verbatim>\<open>error.response?.data.meta.error_detail\<close>: only a missing response short-circuits
  the chain; with a response, \<^verbatim>\<open>.meta\<close> and \<^verbatim>\<open>.error_detail\<close> are plain property
  reads.
\<close>

definition error_detail :: "js_error \<Rightarrow> type_error + json option" where
  "error_detail error =
     (case response error of
        None \<Rightarrow> Inr None
      | Some r \<Rightarrow>
          (case js_get (Some (data r)) ''meta'' of
             Inl e \<Rightarrow> Inl e
           | Inr meta \<Rightarrow> js_get meta ''error_detail''))"

text \<open>
  Each case is a \<^verbatim>\<open>try\<close> with its \<^verbatim>\<open>catch\<close>. The attempt is the \<^verbatim>\<open>try\<close> block:
  the calls it made and either the envelope it returns or the error thrown in it, be it
  the rejection of the call or, for \<^verbatim>\<open>get_beer_info\<close>, a TypeError of the template
  literal that builds the path, raised before the call. The \<^verbatim>\<open>catch\<close> block then
  handles the error; a TypeError raised inside it is thrown by the handler.
\<close>

definition case_get_beer_info :: "UntappdServer \<Rightarrow> http_get \<Rightarrow> invocation \<Rightarrow> handled" where
  "case_get_beer_info this get request =
     (case arguments request of
        None \<Rightarrow>
          \<lparr>calls = [], result = Threw (TypeError (Cannot_destructure ''beer_id'')),
           server_after = this\<rparr>
      | Some args \<Rightarrow>
          (let beer_id = args ''beer_id'';
               attempt =
                 (case template beer_id of
                    Inl e \<Rightarrow> ([], Inl (TypeError e))
                  | Inr printed \<Rightarrow>
                      (let call = \<lparr>url = ''/beer/info/'' @ printed, call_params = []\<rparr>
                       in
                      ([(axiosInstance this, call)],
                       case get (axiosInstance this) call of
                         Resolved res \<Rightarrow>
                           Inr \<lparr>content =
                                  [\<lparr>block_type = ''text'',
                                    block_text = JSON_stringify (data res)\<rparr>],
                                isError = None\<rparr>
                       | Rejected error \<Rightarrow> Inl error)))
           in \<lparr>calls = fst attempt,
               result =
                 (case snd attempt of
                    Inr envelope \<Rightarrow> Returned envelope
                  | Inl error \<Rightarrow>
                      if isAxiosError error then
                        (case error_detail error of
                           Inl e \<Rightarrow> Threw (TypeError e)
                         | Inr detail \<Rightarrow>
                             (case nullish_or detail (message error) of
                                Inl e \<Rightarrow> Threw (TypeError e)
                              | Inr printed \<Rightarrow>
                                  Returned
                                    \<lparr>content =
                                       [\<lparr>block_type = ''text'',
                                         block_text = ''Untappd API error: '' @ printed\<rparr>],
                                     isError = Some True\<rparr>))
                      else Threw error),
               server_after = this\<rparr>))"

definition case_search_beer :: "UntappdServer \<Rightarrow> http_get \<Rightarrow> invocation \<Rightarrow> handled" where
  "case_search_beer this get request =
     (case arguments request of
        None \<Rightarrow>
          \<lparr>calls = [], result = Threw (TypeError (Cannot_destructure ''query'')),
           server_after = this\<rparr>
      | Some args \<Rightarrow>
          (let query = args ''query'';
               attempt =
                 (let call = \<lparr>url = ''/search/beer'', call_params = [(''q'', query)]\<rparr>
                  in
                      ([(axiosInstance this, call)],
                       case get (axiosInstance this) call of
                         Resolved res \<Rightarrow>
                           Inr \<lparr>content =
                                  [\<lparr>block_type = ''text'',
                                    block_text = JSON_stringify (data res)\<rparr>],
                                isError = None\<rparr>
                       | Rejected error \<Rightarrow> Inl error))
           in \<lparr>calls = fst attempt,
               result =
                 (case snd attempt of
                    Inr envelope \<Rightarrow> Returned envelope
                  | Inl error \<Rightarrow>
                      if isAxiosError error then
                        (case error_detail error of
                           Inl e \<Rightarrow> Threw (TypeError e)
                         | Inr detail \<Rightarrow>
                             (case nullish_or detail (message error) of
                                Inl e \<Rightarrow> Threw (TypeError e)
                              | Inr printed \<Rightarrow>
                                  Returned
                                    \<lparr>content =
                                       [\<lparr>block_type = ''text'',
                                         block_text = ''Untappd API error: '' @ printed\<rparr>],
                                     isError = Some True\<rparr>))
                      else Threw error),
               server_after = this\<rparr>))"

definition case_get_user_checkins :: "UntappdServer \<Rightarrow> http_get \<Rightarrow> invocation \<Rightarrow> handled" where
  "case_get_user_checkins this get request =
     (case arguments request of
        None \<Rightarrow>
          \<lparr>calls = [], result = Threw (TypeError (Cannot_destructure ''limit'')),
           server_after = this\<rparr>
      | Some args \<Rightarrow>
          (let limit = args ''limit'';
               attempt =
                 (let call = \<lparr>url = ''/user/checkins'', call_params = [(''limit'', limit)]\<rparr>
                  in
                      ([(axiosInstance this, call)],
                       case get (axiosInstance this) call of
                         Resolved res \<Rightarrow>
                           Inr \<lparr>content =
                                  [\<lparr>block_type = ''text'',
                                    block_text = JSON_stringify (data res)\<rparr>],
                                isError = None\<rparr>
                       | Rejected error \<Rightarrow> Inl error))
           in \<lparr>calls = fst attempt,
               result =
                 (case snd attempt of
                    Inr envelope \<Rightarrow> Returned envelope
                  | Inl error \<Rightarrow>
                      if isAxiosError error then
                        (case error_detail error of
                           Inl e \<Rightarrow> Threw (TypeError e)
                         | Inr detail \<Rightarrow>
                             (case nullish_or detail (message error) of
                                Inl e \<Rightarrow> Threw (TypeError e)
                              | Inr printed \<Rightarrow>
                                  Returned
                                    \<lparr>content =
                                       [\<lparr>block_type = ''text'',
                                         block_text = ''Untappd API error: '' @ printed\<rparr>],
                                     isError = Some True\<rparr>))
                      else Threw error),
               server_after = this\<rparr>))"

text \<open>The \<^verbatim>\<open>switch\<close> on \<^verbatim>\<open>request.params.name\<close>, in the order of the source.\<close>

definition call_tool :: "UntappdServer \<Rightarrow> http_get \<Rightarrow> invocation \<Rightarrow> handled" where
  "call_tool this get request =
     (if name request = ''get_beer_info'' then case_get_beer_info this get request
      else if name request = ''search_beer'' then case_search_beer this get request
      else if name request = ''get_user_checkins'' then case_get_user_checkins this get request
      else \<lparr>calls = [],
            result = Threw (McpError MethodNotFound (''Unknown tool: '' @ name request)),
            server_after = this\<rparr>)"

text \<open>
  A run of the server: the requests are handled one after the other, each against the
  remote as it is at that moment, on the server object the previous one left.
\<close>

fun serve :: "UntappdServer \<Rightarrow> (http_get \<times> invocation) list \<Rightarrow> handled list" where
  "serve this [] = []"
| "serve this (r # rs) =
     (let h = call_tool this (fst r) (snd r) in h # serve (server_after h) rs)"


subsection \<open>Process start\<close>

datatype request_schema = ListToolsRequestSchema | CallToolRequestSchema

datatype event =
    console_error string
  | console_error_value js_error
  | process_exit int
  | new_Server server_info
  | axios_create axios_config
  | setRequestHandler request_schema
  | set_onerror
  | process_on string
  | new_StdioServerTransport
  | server_connect

record process =
  events :: "event list"
  serving :: "UntappdServer option"

text \<open>\<^verbatim>\<open>process.env.X || ''\<close>: a missing variable and an empty one both give the empty
  string.\<close>

definition env_or_empty :: "(string \<rightharpoonup> string) \<Rightarrow> string \<Rightarrow> string" where
  "env_or_empty env x = (case env x of None \<Rightarrow> [] | Some v \<Rightarrow> if v = [] then [] else v)"

text \<open>
  The module body, top to bottom. \<^verbatim>\<open>process.exit(1)\<close> ends the process, so nothing
  follows it. The second argument says whether the transport's \<^verbatim>\<open>connect\<close> fails, and
  with what; the \<^verbatim>\<open>catch\<close> of \<^verbatim>\<open>server.run()\<close> prints that error.
\<close>

definition main :: "(string \<rightharpoonup> string) \<Rightarrow> js_error option \<Rightarrow> process" where
  "main env connect_error =
     (let CLIENT_ID = env_or_empty env ''CLIENT_ID'';
          CLIENT_SECRET = env_or_empty env ''CLIENT_SECRET''
      in if CLIENT_ID = [] \<or> CLIENT_SECRET = [] then
           \<lparr>events =
              [console_error
                 ''Error: CLIENT_ID and CLIENT_SECRET environment variables are required'',
               process_exit 1],
            serving = None\<rparr>
         else
           (let this = constructor CLIENT_ID CLIENT_SECRET
            in \<lparr>events =
                  [new_Server (server this), axios_create (axiosInstance this),
                   setRequestHandler ListToolsRequestSchema,
                   setRequestHandler CallToolRequestSchema,
                   set_onerror, process_on ''SIGINT'',
                   new_StdioServerTransport, server_connect]
                  @ (case connect_error of
                       None \<Rightarrow> [console_error ''Untappd MCP server running on stdio'']
                     | Some e \<Rightarrow> [console_error_value e]),
                serving = Some this\<rparr>))"

subsection \<open>The request that leaves the process\<close>

record http_request =
  http_method :: string
  base :: string
  path :: string
  query :: "string \<rightharpoonup> json option"

text \<open>
  Modelled from the spec: the HTTP client library (axios) is not part of the repository.
  Section 4.2 of the specification gives its contract: a client bound to the base address,
  with the parameters of its configuration attached to every request issued through it,
  offering "GET to path P with optional extra query parameters Q". The parameters of a
  call are added to those of the instance, a call's value taking precedence for a
  name both give.
\<close>

definition outbound :: "axios_config \<Rightarrow> get_call \<Rightarrow> http_request" where
  "outbound config call =
     \<lparr>http_method = ''GET'', base = baseURL config, path = url call,
      query = map_of (params config) ++ map_of (call_params call)\<rparr>"

subsection \<open>Observations and fixtures\<close>

text \<open>The configurations of the HTTP clients created in a trace, in order.\<close>

fun created_clients :: "event list \<Rightarrow> axios_config list" where
  "created_clients [] = []"
| "created_clients (axios_create c # es) = c # created_clients es"
| "created_clients (e # es) = created_clients es"

text \<open>
  The response bodies of the specification's examples:
  \<^verbatim>\<open>{"meta":{"code":200},"response":{"beer":{"bid":123,"beer_name":"Test IPA"}}}\<close> and
  \<^verbatim>\<open>{"meta":{"error_detail":"Beer not found"}}\<close>.
\<close>

definition beer_body :: json where
  "beer_body =
     JObj [(''meta'', JObj [(''code'', JNum ''200'')]),
           (''response'',
            JObj [(''beer'', JObj [(''bid'', JNum ''123''),
                                  (''beer_name'', JStr ''Test IPA'')])])]"

definition not_found_body :: json where
  "not_found_body = JObj [(''meta'', JObj [(''error_detail'', JStr ''Beer not found'')])]"

section \<open>Facts about the dispatcher used throughout\<close>

lemmas case_defs =
  case_get_beer_info_def case_search_beer_def case_get_user_checkins_def

lemma call_tool_server_after: "server_after (call_tool this get request) = this"
  by (simp add: call_tool_def case_defs Let_def split: option.split)

lemma call_tool_calls_config:
  "(config, call) \<in> set (calls (call_tool this get request)) \<Longrightarrow> config = axiosInstance this"
  by (auto simp add: call_tool_def case_defs Let_def split: option.splits if_splits sum.splits)

lemma serve_server_after: "h \<in> set (serve this rs) \<Longrightarrow> server_after h = this"
  by (induction rs arbitrary: this) (auto simp add: Let_def call_tool_server_after)

lemma serve_snoc:
  "serve this (rs @ [(get, request)]) = serve this rs @ [call_tool this get request]"
  by (induction rs arbitrary: this) (auto simp add: Let_def call_tool_server_after)

lemma serve_call_tool:
  "h \<in> set (serve this rs) \<Longrightarrow> \<exists>get request. h = call_tool this get request"
  by (induction rs arbitrary: this) (auto simp add: Let_def call_tool_server_after)

section \<open>The claims\<close>

subsection \<open>Unknown tool names\<close>

text \<open>
  Claim C2. A call-tool request whose name is none of \<^verbatim>\<open>get_beer_info\<close>,
  \<^verbatim>\<open>search_beer\<close>, \<^verbatim>\<open>get_user_checkins\<close> ends in a thrown protocol error with the
  code MethodNotFound, whose message is \<^verbatim>\<open>Unknown tool: \<close> followed by the name. No
  envelope is returned and no HTTP call is made.
\<close>

theorem unknown_tool_MethodNotFound:
  assumes "name request \<notin> {''get_beer_info'', ''search_beer'', ''get_user_checkins''}"
  shows "result (call_tool this get request)
           = Threw (McpError MethodNotFound (''Unknown tool: '' @ name request))
         \<and> calls (call_tool this get request) = []
         \<and> (\<forall>e. result (call_tool this get request) \<noteq> Returned e)"
  using assms by (simp add: call_tool_def)

theorem unknown_tool_MethodNotFound_witness:
  "''delete_beer'' \<notin> {''get_beer_info'', ''search_beer'', ''get_user_checkins''}
   \<and> result (call_tool (constructor ''id'' ''secret'')
         (\<lambda>config call. Resolved \<lparr>status = 200, data = JNull\<rparr>)
         \<lparr>name = ''delete_beer'', arguments = Some Map.empty\<rparr>)
       = Threw (McpError MethodNotFound ''Unknown tool: delete_beer'')"
  using unknown_tool_MethodNotFound
    [of "\<lparr>name = ''delete_beer'', arguments = Some Map.empty\<rparr>"
        "constructor ''id'' ''secret''"
        "\<lambda>config call. Resolved \<lparr>status = 200, data = JNull\<rparr>"]
  by simp

subsection \<open>A successful call\<close>




subsection \<open>Errors that are not the HTTP library's\<close>



subsection \<open>A request without arguments\<close>

text \<open>
  Claim C10. When one of the three tools is invoked and the request carries no arguments
  mapping, the destructuring at the head of the case raises a TypeError, which the handler
  does not catch: it is thrown before any HTTP call is made, and it is neither an envelope
  nor a protocol error about invalid parameters.
\<close>

theorem missing_arguments_TypeError:
  assumes "name request \<in> {''get_beer_info'', ''search_beer'', ''get_user_checkins''}"
    and "arguments request = None"
  shows "result (call_tool this get request)
           = Threw (TypeError (Cannot_destructure
               (if name request = ''get_beer_info'' then ''beer_id''
                else if name request = ''search_beer'' then ''query'' else ''limit'')))
         \<and> calls (call_tool this get request) = []"
  using assms
  by (auto simp add: call_tool_def case_defs)

theorem missing_arguments_TypeError_witness:
  "''get_user_checkins'' \<in> {''get_beer_info'', ''search_beer'', ''get_user_checkins''}
   \<and> result (call_tool (constructor ''id'' ''secret'')
         (\<lambda>config call. Resolved \<lparr>status = 200, data = beer_body\<rparr>)
         \<lparr>name = ''get_user_checkins'', arguments = None\<rparr>)
       = Threw (TypeError (Cannot_destructure ''limit''))
   \<and> calls (call_tool (constructor ''id'' ''secret'')
         (\<lambda>config call. Resolved \<lparr>status = 200, data = beer_body\<rparr>)
         \<lparr>name = ''get_user_checkins'', arguments = None\<rparr>) = []"
  using missing_arguments_TypeError
    [of "\<lparr>name = ''get_user_checkins'', arguments = None\<rparr>"
        "constructor ''id'' ''secret''"
        "\<lambda>config call. Resolved \<lparr>status = 200, data = beer_body\<rparr>"]
  by simp

subsection \<open>An error of the HTTP library\<close>

text \<open>
  When the call is rejected with an error of the HTTP library, the chain
  \<^verbatim>\<open>error.response?.data.meta.error_detail\<close> can be read and its value, or the
  message in its place, can be printed, the handler returns the envelope with the flag
  set and one text block.
\<close>

lemma api_error_envelope:
  assumes "name request \<in> {''get_beer_info'', ''search_beer'', ''get_user_checkins''}"
    and "(config, call) \<in> set (calls (call_tool this get request))"
    and "get config call = Rejected error"
    and "isAxiosError error"
    and "error_detail error = Inr detail"
    and "nullish_or detail (message error) = Inr printed"
  shows "result (call_tool this get request)
           = Returned
               \<lparr>content =
                  [\<lparr>block_type = ''text'', block_text = ''Untappd API error: '' @ printed\<rparr>],
                isError = Some True\<rparr>"
  using assms
  by (auto simp add: call_tool_def case_defs Let_def split: option.splits if_splits sum.splits)

text \<open>
  The chain can be read when there is no response, and when the body is an object whose
  \<^verbatim>\<open>meta\<close> is present and not \<^verbatim>\<open>null\<close>. A body without \<^verbatim>\<open>meta\<close> makes the read of
  \<^verbatim>\<open>error_detail\<close> fail.
\<close>

lemma error_detail_cases:
  "error_detail (AxiosError m None) = Inr None"
  "error_detail (AxiosError m (Some \<lparr>status = s, data = JObj kvs\<rparr>)) =
     (case map_of kvs ''meta'' of
        None \<Rightarrow> Inl (Cannot_read_property ''error_detail'')
      | Some JNull \<Rightarrow> Inl (Cannot_read_property ''error_detail'')
      | Some (JObj mvs) \<Rightarrow> Inr (map_of mvs ''error_detail'')
      | Some _ \<Rightarrow> Inr None)"
  by (auto simp add: error_detail_def js_get_def split: option.splits json.splits)

lemma not_found_envelope:
  "result (call_tool (constructor ''id'' ''secret'')
     (\<lambda>config call. Rejected (AxiosError ''Request failed with status code 404''
         (Some \<lparr>status = 404, data = not_found_body\<rparr>)))
     \<lparr>name = ''get_beer_info'', arguments = Some [''beer_id'' \<mapsto> JStr ''999999'']\<rparr>)
   = Returned
       \<lparr>content = [\<lparr>block_type = ''text'', block_text = ''Untappd API error: Beer not found''\<rparr>],
        isError = Some True\<rparr>"
  by (simp add: call_tool_def case_get_beer_info_def Let_def template_def isAxiosError_def
      error_detail_def js_get_def not_found_body_def nullish_or_def)

text \<open>
  An \<^verbatim>\<open>error_detail\<close> that cannot be printed makes the \<^verbatim>\<open>catch\<close> block throw as
  well.
\<close>

lemma unprintable_error_detail_throws:
  "result (call_tool (constructor ''id'' ''secret'')
     (\<lambda>config call. Rejected (AxiosError ''Request failed with status code 500''
         (Some \<lparr>status = 500,
                data = JObj [(''meta'',
                  JObj [(''error_detail'', JObj [(''toString'', JStr ''x'')])])]\<rparr>)))
     \<lparr>name = ''search_beer'', arguments = Some [''query'' \<mapsto> JStr ''stout'']\<rparr>)
   = Threw (TypeError Cannot_convert_to_primitive)"
  by (simp add: call_tool_def case_search_beer_def Let_def isAxiosError_def error_detail_def
      js_get_def nullish_or_def)

text \<open>
  Claim C1 says that every error of the HTTP library gives the envelope with the flag set,
  with the generic message of the error when the body has no \<^verbatim>\<open>error_detail\<close>. The
  handler does not do so for a response whose body has no \<^verbatim>\<open>meta\<close>: for
  \<^verbatim>\<open>get_beer_info\<close> with \<^verbatim>\<open>beer_id = "123"\<close> and a remote answering 502 with the
  body \<^verbatim>\<open>Bad Gateway\<close>, the read of \<^verbatim>\<open>error_detail\<close> from \<^verbatim>\<open>undefined\<close> raises a
  TypeError inside the \<^verbatim>\<open>catch\<close> block, and the handler throws it.
\<close>

theorem api_error_without_meta_throws:
  "result (call_tool (constructor ''id'' ''secret'')
     (\<lambda>config call. Rejected (AxiosError ''Request failed with status code 502''
         (Some \<lparr>status = 502, data = JStr ''Bad Gateway''\<rparr>)))
     \<lparr>name = ''get_beer_info'', arguments = Some [''beer_id'' \<mapsto> JStr ''123'']\<rparr>)
   = Threw (TypeError (Cannot_read_property ''error_detail''))"
  by (simp add: call_tool_def case_get_beer_info_def Let_def template_def isAxiosError_def
      error_detail_def js_get_def)

subsection \<open>From a tool to its request\<close>

text \<open>What the template literal prints, and when it fails.\<close>

lemma template_values:
  "template None = Inr ''undefined''"
  "template (Some (JStr s)) = Inr s"
  "template (Some (JNum n)) = Inr n"
  "template (Some JNull) = Inr ''null''"
  "template (Some (JBool b)) = Inr (if b then ''true'' else ''false'')"
  "template (Some (JObj kvs)) =
     (if ''toString'' \<in> set (map fst kvs) then Inl Cannot_convert_to_primitive
      else Inr ''[object Object]'')"
  by (simp_all add: template_def)

lemma ToString_error: "ToString v = Inl e \<Longrightarrow> e = Cannot_convert_to_primitive"
proof (induction v arbitrary: e)
  case (JArr xs)
  have "sequence (map (\<lambda>x. if x = JNull then Inr [] else ToString x) ys) = Inl e'
      \<Longrightarrow> set ys \<subseteq> set xs \<Longrightarrow> e' = Cannot_convert_to_primitive" for ys e'
  proof (induction ys)
    case Nil
    then show ?case by simp
  next
    case (Cons y ys)
    show ?case
    proof (cases "if y = JNull then Inr [] else ToString y")
      case (Inl a)
      with Cons.prems have "ToString y = Inl e'" "y \<in> set xs"
        by (auto split: if_splits)
      then show ?thesis
        using JArr.IH by blast
    next
      case (Inr b)
      with Cons.prems have "sequence (map (\<lambda>x. if x = JNull then Inr [] else ToString x) ys) = Inl e'"
        by (auto split: sum.splits)
      with Cons show ?thesis
        by simp
    qed
  qed
  with JArr.prems show ?case
    by (auto split: sum.splits)
qed (auto split: if_splits)

text \<open>
  Claim C6, as stated, fails where the template literal of \<^verbatim>\<open>get_beer_info\<close> cannot
  print \<^verbatim>\<open>beer_id\<close>: for the arguments \<^verbatim>\<open>{"beer_id": {"toString": "x"}}\<close> the
  conversion raises a TypeError inside the \<^verbatim>\<open>try\<close> block, the \<^verbatim>\<open>catch\<close> block
  throws it again, and no request has been issued.
\<close>

theorem get_beer_info_unprintable_id_no_request:
  "calls (call_tool (constructor ''id'' ''secret'')
       (\<lambda>config call. Resolved \<lparr>status = 200, data = beer_body\<rparr>)
       \<lparr>name = ''get_beer_info'',
        arguments = Some [''beer_id'' \<mapsto> JObj [(''toString'', JStr ''x'')]]\<rparr>) = []
   \<and> result (call_tool (constructor ''id'' ''secret'')
       (\<lambda>config call. Resolved \<lparr>status = 200, data = beer_body\<rparr>)
       \<lparr>name = ''get_beer_info'',
        arguments = Some [''beer_id'' \<mapsto> JObj [(''toString'', JStr ''x'')]]\<rparr>)
     = Threw (TypeError Cannot_convert_to_primitive)"
  by (simp add: call_tool_def case_get_beer_info_def Let_def template_def isAxiosError_def)

text \<open>
  Claim C6, amended. Take a request that carries an arguments mapping.
  \<^verbatim>\<open>search_beer\<close> makes exactly one call, a GET through the client to
  \<^verbatim>\<open>/search/beer\<close> with the parameter \<^verbatim>\<open>q\<close> set to \<^verbatim>\<open>query\<close>, and
  \<^verbatim>\<open>get_user_checkins\<close> exactly one, to \<^verbatim>\<open>/user/checkins\<close> with the parameter
  \<^verbatim>\<open>limit\<close> set to \<^verbatim>\<open>limit\<close>. \<^verbatim>\<open>get_beer_info\<close> makes exactly one call, to
  \<^verbatim>\<open>/beer/info/\<close> followed by \<^verbatim>\<open>beer_id\<close> as the template literal prints it (a
  string as it is), with no parameter of its own, whenever \<^verbatim>\<open>beer_id\<close> can be printed;
  when it cannot, the handler makes no call and throws the TypeError of the conversion.
  No tool makes more than one call, and nothing else of the arguments is read: two
  mappings that agree on that one argument are handled alike.
\<close>

theorem tool_to_request:
  assumes "arguments request = Some args"
  shows "(name request = ''get_beer_info'' \<longrightarrow>
            (template (args ''beer_id'') = Inr printed \<longrightarrow>
               calls (call_tool this get request)
                 = [(axiosInstance this,
                     \<lparr>url = ''/beer/info/'' @ printed, call_params = []\<rparr>)])
            \<and> (args ''beer_id'' = Some (JStr s) \<longrightarrow>
               calls (call_tool this get request)
                 = [(axiosInstance this, \<lparr>url = ''/beer/info/'' @ s, call_params = []\<rparr>)])
            \<and> (template (args ''beer_id'') = Inl e \<longrightarrow>
               e = Cannot_convert_to_primitive
               \<and> calls (call_tool this get request) = []
               \<and> result (call_tool this get request) = Threw (TypeError e))
            \<and> (args' ''beer_id'' = args ''beer_id'' \<longrightarrow>
                 call_tool this get (request\<lparr>arguments := Some args'\<rparr>)
                   = call_tool this get request))
       \<and> (name request = ''search_beer'' \<longrightarrow>
            calls (call_tool this get request)
              = [(axiosInstance this,
                  \<lparr>url = ''/search/beer'', call_params = [(''q'', args ''query'')]\<rparr>)]
            \<and> (args' ''query'' = args ''query'' \<longrightarrow>
                 call_tool this get (request\<lparr>arguments := Some args'\<rparr>)
                   = call_tool this get request))
       \<and> (name request = ''get_user_checkins'' \<longrightarrow>
            calls (call_tool this get request)
              = [(axiosInstance this,
                  \<lparr>url = ''/user/checkins'', call_params = [(''limit'', args ''limit'')]\<rparr>)]
            \<and> (args' ''limit'' = args ''limit'' \<longrightarrow>
                 call_tool this get (request\<lparr>arguments := Some args'\<rparr>)
                   = call_tool this get request))
       \<and> length (calls (call_tool this get request)) \<le> 1"
proof -
  have 1: "template (args ''beer_id'') = Inl e \<Longrightarrow> e = Cannot_convert_to_primitive"
    by (auto simp add: template_def dest: ToString_error split: option.splits)
  from assms 1 show ?thesis
    by (auto simp add: call_tool_def case_defs Let_def template_def isAxiosError_def
        split: sum.splits)
qed

theorem tool_to_request_witness:
  "calls (call_tool (constructor ''id'' ''secret'')
       (\<lambda>config call. Resolved \<lparr>status = 200, data = beer_body\<rparr>)
       \<lparr>name = ''get_beer_info'', arguments = Some [''beer_id'' \<mapsto> JStr ''123'']\<rparr>)
     = [(axiosInstance (constructor ''id'' ''secret''),
         \<lparr>url = ''/beer/info/123'', call_params = []\<rparr>)]
   \<and> call_tool (constructor ''id'' ''secret'')
       (\<lambda>config call. Resolved \<lparr>status = 200, data = beer_body\<rparr>)
       \<lparr>name = ''get_beer_info'',
        arguments = Some [''beer_id'' \<mapsto> JStr ''123'', ''limit'' \<mapsto> JNum ''10'']\<rparr>
     = call_tool (constructor ''id'' ''secret'')
       (\<lambda>config call. Resolved \<lparr>status = 200, data = beer_body\<rparr>)
       \<lparr>name = ''get_beer_info'', arguments = Some [''beer_id'' \<mapsto> JStr ''123'']\<rparr>
   \<and> calls (call_tool (constructor ''id'' ''secret'')
       (\<lambda>config call. Resolved \<lparr>status = 200, data = beer_body\<rparr>)
       \<lparr>name = ''get_beer_info'',
        arguments = Some [''beer_id'' \<mapsto> JArr [JNum ''1'', JObj [(''toString'', JNull)]]]\<rparr>)
     = []
   \<and> calls (call_tool (constructor ''id'' ''secret'')
       (\<lambda>config call. Resolved \<lparr>status = 200, data = beer_body\<rparr>)
       \<lparr>name = ''search_beer'', arguments = Some [''query'' \<mapsto> JStr ''stout'']\<rparr>)
     = [(axiosInstance (constructor ''id'' ''secret''),
         \<lparr>url = ''/search/beer'', call_params = [(''q'', Some (JStr ''stout''))]\<rparr>)]
   \<and> calls (call_tool (constructor ''id'' ''secret'')
       (\<lambda>config call. Resolved \<lparr>status = 200, data = beer_body\<rparr>)
       \<lparr>name = ''get_user_checkins'', arguments = Some [''limit'' \<mapsto> JNum ''10'']\<rparr>)
     = [(axiosInstance (constructor ''id'' ''secret''),
         \<lparr>url = ''/user/checkins'', call_params = [(''limit'', Some (JNum ''10''))]\<rparr>)]"
proof -
  let ?srv = "constructor ''id'' ''secret''"
  let ?get = "\<lambda>config call. Resolved \<lparr>status = 200, data = beer_body\<rparr>"
  let ?a1 = "[''beer_id'' \<mapsto> JStr ''123'']"
  let ?a1' = "[''beer_id'' \<mapsto> JStr ''123'', ''limit'' \<mapsto> JNum ''10'']"
  let ?a0 = "[''beer_id'' \<mapsto> JArr [JNum ''1'', JObj [(''toString'', JNull)]]]"
  let ?a2 = "[''query'' \<mapsto> JStr ''stout'']"
  let ?a3 = "[''limit'' \<mapsto> JNum ''10'']"
  have 1: "calls (call_tool ?srv ?get \<lparr>name = ''get_beer_info'', arguments = Some ?a1\<rparr>)
      = [(axiosInstance ?srv, \<lparr>url = ''/beer/info/123'', call_params = []\<rparr>)]
    \<and> call_tool ?srv ?get \<lparr>name = ''get_beer_info'', arguments = Some ?a1'\<rparr>
        = call_tool ?srv ?get \<lparr>name = ''get_beer_info'', arguments = Some ?a1\<rparr>"
    using tool_to_request
      [where request = "\<lparr>name = ''get_beer_info'', arguments = Some ?a1\<rparr>" and args = ?a1
         and this = ?srv and get = ?get and args' = ?a1' and s = "''123''"
         and printed = "''123''" and e = Cannot_convert_to_primitive]
    by (simp add: template_def)
  have 0: "calls (call_tool ?srv ?get \<lparr>name = ''get_beer_info'', arguments = Some ?a0\<rparr>) = []"
    using tool_to_request
      [where request = "\<lparr>name = ''get_beer_info'', arguments = Some ?a0\<rparr>" and args = ?a0
         and this = ?srv and get = ?get and args' = ?a0 and s = "''123''"
         and printed = "''123''" and e = Cannot_convert_to_primitive]
    by (simp add: template_def)
  have 2: "calls (call_tool ?srv ?get \<lparr>name = ''search_beer'', arguments = Some ?a2\<rparr>)
      = [(axiosInstance ?srv,
          \<lparr>url = ''/search/beer'', call_params = [(''q'', Some (JStr ''stout''))]\<rparr>)]"
    using tool_to_request
      [where request = "\<lparr>name = ''search_beer'', arguments = Some ?a2\<rparr>" and args = ?a2
         and this = ?srv and get = ?get and args' = ?a2]
    by simp
  have 3: "calls (call_tool ?srv ?get \<lparr>name = ''get_user_checkins'', arguments = Some ?a3\<rparr>)
      = [(axiosInstance ?srv,
          \<lparr>url = ''/user/checkins'', call_params = [(''limit'', Some (JNum ''10''))]\<rparr>)]"
    using tool_to_request
      [where request = "\<lparr>name = ''get_user_checkins'', arguments = Some ?a3\<rparr>" and args = ?a3
         and this = ?srv and get = ?get and args' = ?a3]
    by simp
  from 0 1 2 3 show ?thesis
    by blast
qed

subsection \<open>Process start\<close>

text \<open>
  Claim C4. When \<^verbatim>\<open>CLIENT_ID\<close> or \<^verbatim>\<open>CLIENT_SECRET\<close> is missing from the environment
  or is the empty string, the process prints the diagnostic on the error stream and exits
  with status 1, and nothing else happens: no server is built, no transport is connected.
  When both are non-empty the server is built with them, the transport is connected and
  the process does not exit.
\<close>

theorem startup_requires_credentials:
  "(if env ''CLIENT_ID'' \<in> {None, Some []} \<or> env ''CLIENT_SECRET'' \<in> {None, Some []}
    then main env connect_error
           = \<lparr>events =
                [console_error
                   ''Error: CLIENT_ID and CLIENT_SECRET environment variables are required'',
                 process_exit 1],
              serving = None\<rparr>
    else serving (main env connect_error)
           = Some (constructor (the (env ''CLIENT_ID'')) (the (env ''CLIENT_SECRET'')))
         \<and> take 2 (events (main env connect_error))
           = [new_Server
                (server (constructor (the (env ''CLIENT_ID'')) (the (env ''CLIENT_SECRET'')))),
              axios_create
                (axiosInstance
                   (constructor (the (env ''CLIENT_ID'')) (the (env ''CLIENT_SECRET''))))]
         \<and> server_connect \<in> set (events (main env connect_error))
         \<and> (\<forall>n. process_exit n \<notin> set (events (main env connect_error))))"
  by (auto simp add: main_def env_or_empty_def Let_def split: option.splits)

theorem startup_requires_credentials_witness:
  "main [''CLIENT_ID'' \<mapsto> ''abc''] None
     = \<lparr>events =
          [console_error
             ''Error: CLIENT_ID and CLIENT_SECRET environment variables are required'',
           process_exit 1],
        serving = None\<rparr>
   \<and> main [''CLIENT_ID'' \<mapsto> ''abc'', ''CLIENT_SECRET'' \<mapsto> ''''] None
     = \<lparr>events =
          [console_error
             ''Error: CLIENT_ID and CLIENT_SECRET environment variables are required'',
           process_exit 1],
        serving = None\<rparr>
   \<and> serving (main [''CLIENT_ID'' \<mapsto> ''abc'', ''CLIENT_SECRET'' \<mapsto> ''xyz''] None)
     = Some (constructor ''abc'' ''xyz'')
   \<and> server_connect
       \<in> set (events (main [''CLIENT_ID'' \<mapsto> ''abc'', ''CLIENT_SECRET'' \<mapsto> ''xyz''] None))"
  using startup_requires_credentials [of "[''CLIENT_ID'' \<mapsto> ''abc'']" None]
    startup_requires_credentials
      [of "[''CLIENT_ID'' \<mapsto> ''abc'', ''CLIENT_SECRET'' \<mapsto> '''']" None]
    startup_requires_credentials
      [of "[''CLIENT_ID'' \<mapsto> ''abc'', ''CLIENT_SECRET'' \<mapsto> ''xyz'']" None]
  by simp

subsection \<open>The catalog\<close>

text \<open>
  Claim C5. Listing the tools does not depend on the request and gives three descriptors,
  in the order \<^verbatim>\<open>get_beer_info\<close>, \<^verbatim>\<open>search_beer\<close>, \<^verbatim>\<open>get_user_checkins\<close>, no name
  twice. The first requires \<^verbatim>\<open>beer_id\<close>, a string; the second requires \<^verbatim>\<open>query\<close>, a
  string; the third has the one property \<^verbatim>\<open>limit\<close>, a number with the default 25, which
  is not required, and requires \<^verbatim>\<open>user_id\<close>, which is not among its properties and
  which the dispatcher does not read: setting or removing \<^verbatim>\<open>user_id\<close> in the arguments
  changes nothing.
\<close>

theorem catalog_fixed:
  "list_tools request = list_tools request'
   \<and> map tool_name (list_tools request)
       = [''get_beer_info'', ''search_beer'', ''get_user_checkins'']
   \<and> distinct (map tool_name (list_tools request))
   \<and> map (required \<circ> inputSchema) (list_tools request)
       = [[''beer_id''], [''query''], [''user_id'']]
   \<and> map (map (\<lambda>p. (fst p, ptype (snd p), default_value (snd p))) \<circ> properties \<circ> inputSchema)
         (list_tools request)
       = [[(''beer_id'', ''string'', None)], [(''query'', ''string'', None)],
          [(''limit'', ''number'', Some (JNum ''25''))]]
   \<and> ''limit'' \<notin> set (required (inputSchema (list_tools request ! 2)))
   \<and> ''user_id'' \<notin> fst ` set (properties (inputSchema (list_tools request ! 2)))
   \<and> call_tool this get
         \<lparr>name = ''get_user_checkins'', arguments = Some (args(''user_id'' := v))\<rparr>
       = call_tool this get \<lparr>name = ''get_user_checkins'', arguments = Some args\<rparr>"
  by (simp add: list_tools_def call_tool_def case_get_user_checkins_def Let_def)

subsection \<open>The client configuration\<close>

lemma serve_append: "serve this (xs @ ys) = serve this xs @ serve this ys"
  by (induction xs arbitrary: this) (auto simp add: Let_def call_tool_server_after)

lemma main_serving:
  "serving (main env connect_error) = Some this \<Longrightarrow>
     this = constructor (env_or_empty env ''CLIENT_ID'') (env_or_empty env ''CLIENT_SECRET'')
     \<and> created_clients (events (main env connect_error)) = [axiosInstance this]"
  by (auto simp add: main_def Let_def split: if_splits option.splits)

text \<open>No handler passes a parameter named like a credential, and every path is relative.\<close>

lemma call_params_no_credentials:
  "(config, call) \<in> set (calls (call_tool this get request)) \<Longrightarrow>
     ''client_id'' \<notin> fst ` set (call_params call)
     \<and> ''client_secret'' \<notin> fst ` set (call_params call)
     \<and> take 1 (url call) = ''/''"
  by (auto simp add: call_tool_def case_defs Let_def split: option.splits if_splits sum.splits)

text \<open>
  Claim C7. Take the server that the process started, and any run of requests. Every call
  a handler makes goes through the one client the constructor created, whose base address
  is \<^verbatim>\<open>https://api.untappd.com/v4\<close> and whose parameters are the two credentials of
  the environment; the request that leaves carries both credentials in its query and a
  relative path under that base address. The process creates one client, and after every
  request the server object, the client configuration with it, is what it was.
\<close>

theorem credentials_on_every_request:
  assumes "serving (main env connect_error) = Some this"
    and "h \<in> set (serve this requests)"
    and "(config, call) \<in> set (calls h)"
  shows "config = axiosInstance this
         \<and> config =
             \<lparr>baseURL = ''https://api.untappd.com/v4'',
              params = [(''client_id'', Some (JStr (env_or_empty env ''CLIENT_ID''))),
                        (''client_secret'', Some (JStr (env_or_empty env ''CLIENT_SECRET'')))]\<rparr>
         \<and> ''client_id'' \<notin> fst ` set (call_params call)
         \<and> ''client_secret'' \<notin> fst ` set (call_params call)
         \<and> base (outbound config call) = ''https://api.untappd.com/v4''
         \<and> take 1 (path (outbound config call)) = ''/''
         \<and> query (outbound config call) ''client_id''
             = Some (Some (JStr (env_or_empty env ''CLIENT_ID'')))
         \<and> query (outbound config call) ''client_secret''
             = Some (Some (JStr (env_or_empty env ''CLIENT_SECRET'')))
         \<and> server_after h = this
         \<and> created_clients (events (main env connect_error)) = [axiosInstance this]"
proof -
  from assms(2) obtain get request where h: "h = call_tool this get request"
    using serve_call_tool by blast
  from assms(3) h have c: "config = axiosInstance this"
    using call_tool_calls_config by blast
  from assms(3) h have q: "''client_id'' \<notin> fst ` set (call_params call)"
    "''client_secret'' \<notin> fst ` set (call_params call)"
    and u: "take 1 (url call) = ''/''"
    using call_params_no_credentials by blast+
  from q have p: "map_of (call_params call) ''client_id'' = None"
    "map_of (call_params call) ''client_secret'' = None"
    by (simp_all add: map_of_eq_None_iff)
  from assms(1)
  have t: "this = constructor (env_or_empty env ''CLIENT_ID'') (env_or_empty env ''CLIENT_SECRET'')"
    and k: "created_clients (events (main env connect_error)) = [axiosInstance this]"
    using main_serving by blast+
  have a: "axiosInstance this =
     \<lparr>baseURL = ''https://api.untappd.com/v4'',
      params = [(''client_id'', Some (JStr (env_or_empty env ''CLIENT_ID''))),
                (''client_secret'', Some (JStr (env_or_empty env ''CLIENT_SECRET'')))]\<rparr>"
    by (subst t) (simp add: constructor_def)
  from assms(2) have s: "server_after h = this"
    by (rule serve_server_after)
  from c p u a have "base (outbound config call) = ''https://api.untappd.com/v4''"
    "take 1 (path (outbound config call)) = ''/''"
    "query (outbound config call) ''client_id''
       = Some (Some (JStr (env_or_empty env ''CLIENT_ID'')))"
    "query (outbound config call) ''client_secret''
       = Some (Some (JStr (env_or_empty env ''CLIENT_SECRET'')))"
    by (simp_all add: outbound_def map_add_def)
  with c a q s k show ?thesis
    by simp
qed

theorem credentials_on_every_request_witness:
  "serving (main [''CLIENT_ID'' \<mapsto> ''abc'', ''CLIENT_SECRET'' \<mapsto> ''xyz''] None)
     = Some (constructor ''abc'' ''xyz'')
   \<and> query (outbound (axiosInstance (constructor ''abc'' ''xyz''))
                \<lparr>url = ''/search/beer'', call_params = [(''q'', Some (JStr ''stout''))]\<rparr>)
         ''client_id'' = Some (Some (JStr ''abc''))
   \<and> query (outbound (axiosInstance (constructor ''abc'' ''xyz''))
                \<lparr>url = ''/search/beer'', call_params = [(''q'', Some (JStr ''stout''))]\<rparr>)
         ''client_secret'' = Some (Some (JStr ''xyz''))
   \<and> base (outbound (axiosInstance (constructor ''abc'' ''xyz''))
                \<lparr>url = ''/search/beer'', call_params = [(''q'', Some (JStr ''stout''))]\<rparr>)
       = ''https://api.untappd.com/v4''"
proof -
  let ?env = "[''CLIENT_ID'' \<mapsto> ''abc'', ''CLIENT_SECRET'' \<mapsto> ''xyz'']"
  let ?srv = "constructor ''abc'' ''xyz''"
  let ?get = "\<lambda>config call. Rejected (Error ''socket closed'')"
  let ?r1 = "\<lparr>name = ''get_beer_info'', arguments = Some [''beer_id'' \<mapsto> JStr ''123'']\<rparr>"
  let ?r2 = "\<lparr>name = ''search_beer'', arguments = Some [''query'' \<mapsto> JStr ''stout'']\<rparr>"
  let ?call = "\<lparr>url = ''/search/beer'', call_params = [(''q'', Some (JStr ''stout''))]\<rparr>"
  have m: "serving (main ?env None) = Some ?srv"
    by (simp add: main_def env_or_empty_def Let_def)
  have h: "call_tool ?srv ?get ?r2 \<in> set (serve ?srv [(?get, ?r1), (?get, ?r2)])"
    by (simp add: Let_def call_tool_server_after)
  have c: "(axiosInstance ?srv, ?call) \<in> set (calls (call_tool ?srv ?get ?r2))"
    by (simp add: call_tool_def case_search_beer_def Let_def)
  have e: "env_or_empty ?env ''CLIENT_ID'' = ''abc''" "env_or_empty ?env ''CLIENT_SECRET'' = ''xyz''"
    by (simp_all add: env_or_empty_def)
  note T = credentials_on_every_request [OF m h c]
  from T have "query (outbound (axiosInstance ?srv) ?call) ''client_id''
      = Some (Some (JStr (env_or_empty ?env ''CLIENT_ID'')))"
    and "query (outbound (axiosInstance ?srv) ?call) ''client_secret''
      = Some (Some (JStr (env_or_empty ?env ''CLIENT_SECRET'')))"
    and "base (outbound (axiosInstance ?srv) ?call) = ''https://api.untappd.com/v4''"
    by blast+
  with m show ?thesis
    unfolding e by blast
qed

subsection \<open>No state between requests\<close>

text \<open>
  Claim C9. Take two \<^verbatim>\<open>get_beer_info\<close> requests with the same arguments, anywhere in
  a run, and let the remote resolve the call with the same body both times. Both are
  handled exactly alike: the same call is made and the same envelope is returned, whose
  text is the body printed. Each is handled as it would be on the server just started,
  whatever came before, and leaves the server object as it was.
\<close>

theorem stateless_deterministic:
  assumes "name request = ''get_beer_info''"
    and "(config, call) \<in> set (calls (call_tool this get1 request))"
    and "get1 config call = Resolved res1"
    and "get2 config call = Resolved res2"
    and "data res1 = data res2"
  shows "serve this (before @ [(get1, request)] @ between @ [(get2, request)])
           = serve this before @ [call_tool this get1 request]
             @ serve this between @ [call_tool this get2 request]
         \<and> call_tool this get2 request = call_tool this get1 request
         \<and> result (call_tool this get1 request)
             = Returned
                 \<lparr>content =
                    [\<lparr>block_type = ''text'', block_text = JSON_stringify (data res1)\<rparr>],
                  isError = None\<rparr>
         \<and> server_after (call_tool this get1 request) = this"
proof -
  have 1: "serve this (before @ [(get1, request)] @ between @ [(get2, request)])
           = serve this before @ [call_tool this get1 request]
             @ serve this between @ [call_tool this get2 request]"
    by (simp add: serve_append Let_def call_tool_server_after)
  from assms have 2: "call_tool this get2 request = call_tool this get1 request"
    by (auto simp add: call_tool_def case_get_beer_info_def Let_def
        split: option.splits sum.splits)
  from assms have 3: "result (call_tool this get1 request)
             = Returned
                 \<lparr>content =
                    [\<lparr>block_type = ''text'', block_text = JSON_stringify (data res1)\<rparr>],
                  isError = None\<rparr>"
    by (auto simp add: call_tool_def case_get_beer_info_def Let_def
        split: option.splits sum.splits)
  from 1 2 3 show ?thesis
    by (simp add: call_tool_server_after)
qed

theorem stateless_deterministic_witness:
  \<open>(axiosInstance (constructor ''id'' ''secret''),
     \<lparr>url = ''/beer/info/123'', call_params = []\<rparr>)
    \<in> set (calls (call_tool (constructor ''id'' ''secret'')
          (\<lambda>config call. Resolved \<lparr>status = 200, data = beer_body\<rparr>)
          \<lparr>name = ''get_beer_info'', arguments = Some [''beer_id'' \<mapsto> JStr ''123'']\<rparr>))
   \<and> call_tool (constructor ''id'' ''secret'')
         (\<lambda>config call. Resolved \<lparr>status = 203, data = beer_body\<rparr>)
         \<lparr>name = ''get_beer_info'', arguments = Some [''beer_id'' \<mapsto> JStr ''123'']\<rparr>
     = call_tool (constructor ''id'' ''secret'')
         (\<lambda>config call. Resolved \<lparr>status = 200, data = beer_body\<rparr>)
         \<lparr>name = ''get_beer_info'', arguments = Some [''beer_id'' \<mapsto> JStr ''123'']\<rparr>
   \<and> map result
        (serve (constructor ''id'' ''secret'')
          [(\<lambda>config call. Resolved \<lparr>status = 200, data = beer_body\<rparr>,
            \<lparr>name = ''get_beer_info'', arguments = Some [''beer_id'' \<mapsto> JStr ''123'']\<rparr>),
           (\<lambda>config call. Rejected (Error ''socket closed''),
            \<lparr>name = ''search_beer'', arguments = Some [''query'' \<mapsto> JStr ''stout'']\<rparr>),
           (\<lambda>config call. Resolved \<lparr>status = 203, data = beer_body\<rparr>,
            \<lparr>name = ''get_beer_info'', arguments = Some [''beer_id'' \<mapsto> JStr ''123'']\<rparr>)])
     = [Returned \<lparr>content = [\<lparr>block_type = ''text'', block_text = JSON_stringify beer_body\<rparr>],
                  isError = None\<rparr>,
        Threw (Error ''socket closed''),
        Returned \<lparr>content = [\<lparr>block_type = ''text'', block_text = JSON_stringify beer_body\<rparr>],
                  isError = None\<rparr>]\<close>
proof -
  let ?srv = "constructor ''id'' ''secret''"
  let ?get1 = "\<lambda>config call. Resolved \<lparr>status = 200, data = beer_body\<rparr>"
  let ?get2 = "\<lambda>config call. Resolved \<lparr>status = 203, data = beer_body\<rparr>"
  let ?getx = "\<lambda>config call. Rejected (Error ''socket closed'')"
  let ?request = "\<lparr>name = ''get_beer_info'', arguments = Some [''beer_id'' \<mapsto> JStr ''123'']\<rparr>"
  let ?rx = "\<lparr>name = ''search_beer'', arguments = Some [''query'' \<mapsto> JStr ''stout'']\<rparr>"
  let ?call = "\<lparr>url = ''/beer/info/123'', call_params = []\<rparr>"
  have n: "name ?request = ''get_beer_info''"
    by simp
  have c: "(axiosInstance ?srv, ?call) \<in> set (calls (call_tool ?srv ?get1 ?request))"
    by (simp add: call_tool_def case_get_beer_info_def Let_def template_def)
  have g1: "?get1 (axiosInstance ?srv) ?call = Resolved \<lparr>status = 200, data = beer_body\<rparr>"
    by simp
  have g2: "?get2 (axiosInstance ?srv) ?call = Resolved \<lparr>status = 203, data = beer_body\<rparr>"
    by simp
  have d: "data \<lparr>status = 200, data = beer_body\<rparr> = data \<lparr>status = 203, data = beer_body\<rparr>"
    by simp
  have x: "result (call_tool ?srv ?getx ?rx) = Threw (Error ''socket closed'')"
    by (simp add: call_tool_def case_search_beer_def Let_def isAxiosError_def)
  note T = stateless_deterministic [OF n c g1 g2 d, of "[]" "[(?getx, ?rx)]"]
  from T have s: "serve ?srv ([] @ [(?get1, ?request)] @ [(?getx, ?rx)] @ [(?get2, ?request)])
      = serve ?srv [] @ [call_tool ?srv ?get1 ?request] @ serve ?srv [(?getx, ?rx)]
        @ [call_tool ?srv ?get2 ?request]"
    by (rule conjunct1)
  from T have e: "call_tool ?srv ?get2 ?request = call_tool ?srv ?get1 ?request"
    by blast
  from T have r: "result (call_tool ?srv ?get1 ?request)
      = Returned \<lparr>content = [\<lparr>block_type = ''text'',
            block_text = JSON_stringify (data \<lparr>status = 200, data = beer_body\<rparr>)\<rparr>],
          isError = None\<rparr>"
    by blast
  have l: "[] @ [(?get1, ?request)] @ [(?getx, ?rx)] @ [(?get2, ?request)]
      = [(?get1, ?request), (?getx, ?rx), (?get2, ?request)]"
    by simp
  have sx: "serve ?srv [(?getx, ?rx)] = [call_tool ?srv ?getx ?rx]"
    by (simp add: Let_def)
  from s have "map result (serve ?srv [(?get1, ?request), (?getx, ?rx), (?get2, ?request)])
      = [result (call_tool ?srv ?get1 ?request), result (call_tool ?srv ?getx ?rx),
         result (call_tool ?srv ?get2 ?request)]"
    unfolding l sx by simp
  with e r x c show ?thesis
    by simp
qed


end
